theory Spec2Isabelle
  imports Complex_Main
begin

section \<open>The Sieve mesh layer (Mesh.hh): Bundle, Discretization, BoundaryCondition, Mesh\<close>

text \<open>
  The development embeds the classes of \<^verbatim>\<open>src/dm/mesh/sieve/Mesh.hh\<close>.

  \<^item> C++ \<^verbatim>\<open>double\<close> is modelled by \<^typ>\<open>real\<close>, in exact arithmetic. Rounding, underflow
    and overflow are not modelled: the model computes what the code computes where every
    intermediate value is a double, as in the examples below, and may differ from it elsewhere.
    The division \<^verbatim>\<open>1.0/detJ\<close> with \<^verbatim>\<open>detJ == 0\<close> is kept apart from HOL's \<open>1 / 0 = 0\<close>: see
    \<open>invJ\<close> below.
  \<^item> C++ \<^verbatim>\<open>int\<close> is modelled by \<^typ>\<open>int\<close>. The two places where the file computes with an
    \<^verbatim>\<open>int\<close> beyond its range, the narrowing \<^verbatim>\<open>int size = _bcValues.size()\<close> and the negation
    of a dof count, have their 32-bit wrap-around written out.
  \<^item> \<^verbatim>\<open>Obj<T>\<close> is a reference: section objects live in a heap and are named by address.
  \<^item> The classes \<^verbatim>\<open>Section\<close> and \<^verbatim>\<open>Topology\<close> are declared elsewhere (Numbering.hh and
    below). A topology is the record of the three queries this file makes. A real section is the
    sequence of the mutating calls it has received; what \<^verbatim>\<open>restrict\<close> and
    \<^verbatim>\<open>restrictPoint\<close> read from it is a parameter.
\<close>

type_synonym point_type = int
type_synonym patch_type = int
type_synonym addr = nat

text \<open>\<^verbatim>\<open>ALE::Exception\<close> with its message.\<close>

datatype exception = Exception string

subsection \<open>\<^verbatim>\<open>std::map\<close>\<close>

text \<open>
  A \<^verbatim>\<open>std::map<int, T>\<close> is an association list kept in increasing key order, which is the order
  its iterator visits. \<open>table_set k x t\<close> is \<^verbatim>\<open>t[k] = x\<close>; \<open>table_index t k dflt\<close> is the
  read \<^verbatim>\<open>t[k]\<close>, which inserts the value-initialised \<open>dflt\<close> under a missing key.
\<close>

type_synonym 'a table = "(int \<times> 'a) list"

definition wf_table :: "'a table \<Rightarrow> bool" where
  "wf_table t = sorted_wrt (<) (map fst t)"

fun table_set :: "int \<Rightarrow> 'a \<Rightarrow> 'a table \<Rightarrow> 'a table" where
  "table_set k x [] = [(k, x)]"
| "table_set k x (e # t) =
     (if fst e = k then (k, x) # t
      else if fst e < k then e # table_set k x t
      else (k, x) # e # t)"

definition table_index :: "'a table \<Rightarrow> int \<Rightarrow> 'a \<Rightarrow> 'a \<times> 'a table" where
  "table_index t k dflt =
     (case map_of t k of
        Some x \<Rightarrow> (x, t)
      | None \<Rightarrow> (dflt, table_set k dflt t))"

text \<open>
  The section registries are \<^verbatim>\<open>std::map<std::string, Obj<...>>\<close>; nothing modelled here
  iterates over them, so they are maps. \<open>map_index\<close> is \<^verbatim>\<open>operator[]\<close> on them.
\<close>

definition map_index :: "('k \<rightharpoonup> 'a) \<Rightarrow> 'k \<Rightarrow> 'a \<Rightarrow> 'a \<times> ('k \<rightharpoonup> 'a)" where
  "map_index m k dflt =
     (case m k of
        Some x \<Rightarrow> (x, m)
      | None \<Rightarrow> (dflt, m(k \<mapsto> dflt)))"

text \<open>The null \<^verbatim>\<open>Obj\<close>.\<close>

definition null :: addr where
  "null = 0"

subsection \<open>Collaborators declared outside Mesh.hh\<close>

text \<open>The mutating calls this file makes on a real section.\<close>

datatype section_call =
    SetFiberDimensionByDepth patch_type int int
  | SetFiberDimension patch_type point_type int
  | Allocate
  | UpdateBC patch_type point_type real

type_synonym real_section = "section_call list"

text \<open>
  What the two read accessors of a real section return: a \<^verbatim>\<open>const double *\<close>, modelled as the
  function from an offset to the value stored there.
\<close>

record section_type =
  restrict :: "real_section \<Rightarrow> patch_type \<Rightarrow> point_type \<Rightarrow> nat \<Rightarrow> real"
  restrictPoint :: "real_section \<Rightarrow> patch_type \<Rightarrow> point_type \<Rightarrow> nat \<Rightarrow> real"

text \<open>The queries made on the topology; a label sequence is the list its iterator visits.\<close>

record topology_type =
  heightStratum :: "patch_type \<Rightarrow> int \<Rightarrow> point_type list"
  getLabelStratum :: "patch_type \<Rightarrow> string \<Rightarrow> int \<Rightarrow> point_type list"
  depth :: "patch_type \<Rightarrow> point_type \<Rightarrow> int"

subsection \<open>Bundle\<close>

text \<open>
  \<open>debug\<close> and \<open>commRank\<close> are the members of \<^verbatim>\<open>ParallelObject\<close> the file reads. \<open>heap_next\<close>
  is the address the next \<^verbatim>\<open>new\<close> returns, \<open>real_heap\<close> the state of the real section at each
  address, and \<open>cout\<close> the lines written to \<^verbatim>\<open>std::cout\<close>.
\<close>

record Bundle =
  debug :: int
  commRank :: int
  topology :: topology_type
  distributed :: bool
  realSections :: "string \<rightharpoonup> addr"
  intSections :: "string \<rightharpoonup> addr"
  pairSections :: "string \<rightharpoonup> addr"
  heap_next :: addr
  real_heap :: "addr \<Rightarrow> real_section"
  cout :: "string list"

definition new_section :: "'a Bundle_scheme \<Rightarrow> addr \<times> 'a Bundle_scheme" where
  "new_section b =
     (heap_next b,
      b\<lparr>heap_next := Suc (heap_next b), real_heap := (real_heap b)(heap_next b := [])\<rparr>)"

definition print_line :: "string \<Rightarrow> 'a Bundle_scheme \<Rightarrow> 'a Bundle_scheme" where
  "print_line l b = b\<lparr>cout := cout b @ [l]\<rparr>"

definition hasRealSection :: "string \<Rightarrow> 'a Bundle_scheme \<Rightarrow> bool" where
  "hasRealSection name b = (realSections b name \<noteq> None)"

definition getRealSection :: "string \<Rightarrow> 'a Bundle_scheme \<Rightarrow> addr \<times> 'a Bundle_scheme" where
  "getRealSection name b =
     (let b3 =
        (if realSections b name = None then
           let (section, b1) = new_section b;
               b2 = (if debug b1 \<noteq> 0
                     then print_line (''Creating new real section: '' @ name) b1 else b1)
           in b2\<lparr>realSections := (realSections b2)(name \<mapsto> section)\<rparr>
         else b);
          (r, reg) = map_index (realSections b3) name null
      in (r, b3\<lparr>realSections := reg\<rparr>))"

definition setRealSection :: "string \<Rightarrow> addr \<Rightarrow> 'a Bundle_scheme \<Rightarrow> 'a Bundle_scheme" where
  "setRealSection name section b = b\<lparr>realSections := (realSections b)(name \<mapsto> section)\<rparr>"

definition hasIntSection :: "string \<Rightarrow> 'a Bundle_scheme \<Rightarrow> bool" where
  "hasIntSection name b = (intSections b name \<noteq> None)"

definition getIntSection :: "string \<Rightarrow> 'a Bundle_scheme \<Rightarrow> addr \<times> 'a Bundle_scheme" where
  "getIntSection name b =
     (let b3 =
        (if intSections b name = None then
           let (section, b1) = new_section b;
               b2 = (if debug b1 \<noteq> 0
                     then print_line (''Creating new int section: '' @ name) b1 else b1)
           in b2\<lparr>intSections := (intSections b2)(name \<mapsto> section)\<rparr>
         else b);
          (r, reg) = map_index (intSections b3) name null
      in (r, b3\<lparr>intSections := reg\<rparr>))"

definition setIntSection :: "string \<Rightarrow> addr \<Rightarrow> 'a Bundle_scheme \<Rightarrow> 'a Bundle_scheme" where
  "setIntSection name section b = b\<lparr>intSections := (intSections b)(name \<mapsto> section)\<rparr>"

definition hasPairSection :: "string \<Rightarrow> 'a Bundle_scheme \<Rightarrow> bool" where
  "hasPairSection name b = (pairSections b name \<noteq> None)"

definition getPairSection :: "string \<Rightarrow> 'a Bundle_scheme \<Rightarrow> addr \<times> 'a Bundle_scheme" where
  "getPairSection name b =
     (let b3 =
        (if pairSections b name = None then
           let (section, b1) = new_section b;
               b2 = (if debug b1 \<noteq> 0
                     then print_line (''Creating new pair section: '' @ name) b1 else b1)
           in b2\<lparr>pairSections := (pairSections b2)(name \<mapsto> section)\<rparr>
         else b);
          (r, reg) = map_index (pairSections b3) name null
      in (r, b3\<lparr>pairSections := reg\<rparr>))"

definition setPairSection :: "string \<Rightarrow> addr \<Rightarrow> 'a Bundle_scheme \<Rightarrow> 'a Bundle_scheme" where
  "setPairSection name section b = b\<lparr>pairSections := (pairSections b)(name \<mapsto> section)\<rparr>"

text \<open>A mutating call on the real section at address \<open>s\<close>.\<close>

definition section_do :: "addr \<Rightarrow> section_call \<Rightarrow> 'a Bundle_scheme \<Rightarrow> 'a Bundle_scheme" where
  "section_do s c b = b\<lparr>real_heap := (real_heap b)(s := real_heap b s @ [c])\<rparr>"

subsection \<open>Mesh, with its Discretization and BoundaryCondition\<close>

record bc_value_type =
  rho :: real
  u :: real
  v :: real
  p :: real

text \<open>
  \<open>dim2dof\<close> and \<open>dim2class\<close> are the maps of the mesh's \<^verbatim>\<open>Discretization\<close>, \<open>labelName\<close>
  and \<open>func\<close> the members of its \<^verbatim>\<open>BoundaryCondition\<close>.
\<close>

record Mesh = Bundle +
  dim :: int
  bcValues :: "bc_value_type table"
  dim2dof :: "int table"
  dim2class :: "int table"
  labelName :: string
  func :: "(nat \<Rightarrow> real) \<Rightarrow> real"

definition getNumDof :: "int \<Rightarrow> Mesh \<Rightarrow> int \<times> Mesh" where
  "getNumDof d m = (let (n, t) = table_index (dim2dof m) d 0 in (n, m\<lparr>dim2dof := t\<rparr>))"

definition setNumDof :: "int \<Rightarrow> int \<Rightarrow> Mesh \<Rightarrow> Mesh" where
  "setNumDof d numDof m = m\<lparr>dim2dof := table_set d numDof (dim2dof m)\<rparr>"

definition evaluate :: "Mesh \<Rightarrow> (nat \<Rightarrow> real) \<Rightarrow> real" where
  "evaluate m coords = func m coords"

subsection \<open>Mesh geometry\<close>

text \<open>
  The outputs of the geometry routines, for a call that passes all three arrays (as every call
  in the file does). The code computes \<^verbatim>\<open>invDet = 1.0/detJ\<close> without a test; for
  \<^verbatim>\<open>detJ == 0\<close> that is an IEEE infinity, and each entry of \<^verbatim>\<open>invJ\<close>, a product with it, is
  an infinity or a NaN. \<open>invJ = None\<close> stands for that array of non-finite entries. In the code a
  quotient by a tiny non-zero \<^verbatim>\<open>detJ\<close> can overflow as well; exact arithmetic does not show
  that, so \<open>invJ = Some _\<close> says less about the code than \<open>invJ = None\<close> does.
\<close>

record geometry =
  v0 :: "real list"
  J :: "real list"
  invJ :: "real list option"
  detJ :: real

definition computeTriangleGeometry ::
  "section_type \<Rightarrow> real_section \<Rightarrow> point_type \<Rightarrow> geometry" where
  "computeTriangleGeometry S coordinates e =
     (let patch = 0;
          coords = restrict S coordinates patch e;
          n = 2;
          V = map (\<lambda>d. coords d) [0..<n];
          A = concat (map (\<lambda>d. map (\<lambda>f. 0.5 * (coords ((f + 1) * n + d) - coords (0 * n + d)))
                                   [0..<n]) [0..<n]);
          det = A ! 0 * A ! 3 - A ! 1 * A ! 2;
          inv = (if det = 0 then None
                 else let invDet = 1 / det
                      in Some [invDet * A ! 3, - invDet * A ! 1,
                               - invDet * A ! 2, invDet * A ! 0])
      in \<lparr>v0 = V, J = A, invJ = inv, detJ = det\<rparr>)"

definition computeTetrahedronGeometry ::
  "section_type \<Rightarrow> real_section \<Rightarrow> point_type \<Rightarrow> geometry" where
  "computeTetrahedronGeometry S coordinates e =
     (let patch = 0;
          coords = restrict S coordinates patch e;
          n = 3;
          V = map (\<lambda>d. coords d) [0..<n];
          A = concat (map (\<lambda>d. map (\<lambda>f. 0.5 * (coords ((f + 1) * n + d) - coords (0 * n + d)))
                                   [0..<n]) [0..<n]);
          det = A ! (0*3+0) * (A ! (1*3+1) * A ! (2*3+2) - A ! (1*3+2) * A ! (2*3+1)) +
                A ! (0*3+1) * (A ! (1*3+2) * A ! (2*3+0) - A ! (1*3+0) * A ! (2*3+2)) +
                A ! (0*3+2) * (A ! (1*3+0) * A ! (2*3+1) - A ! (1*3+1) * A ! (2*3+0));
          inv = (if det = 0 then None
                 else let invDet = 1 / det
                      in Some
                        [invDet * (A ! (1*3+1) * A ! (2*3+2) - A ! (1*3+2) * A ! (2*3+1)),
                         invDet * (A ! (1*3+2) * A ! (2*3+0) - A ! (1*3+0) * A ! (2*3+2)),
                         invDet * (A ! (1*3+0) * A ! (2*3+1) - A ! (1*3+1) * A ! (2*3+0)),
                         invDet * (A ! (0*3+1) * A ! (2*3+2) - A ! (0*3+2) * A ! (2*3+1)),
                         invDet * (A ! (0*3+2) * A ! (2*3+0) - A ! (0*3+0) * A ! (2*3+2)),
                         invDet * (A ! (0*3+0) * A ! (2*3+1) - A ! (0*3+1) * A ! (2*3+0)),
                         invDet * (A ! (0*3+1) * A ! (1*3+2) - A ! (0*3+2) * A ! (1*3+1)),
                         invDet * (A ! (0*3+2) * A ! (1*3+0) - A ! (0*3+0) * A ! (1*3+2)),
                         invDet * (A ! (0*3+0) * A ! (1*3+1) - A ! (0*3+1) * A ! (1*3+0))])
      in \<lparr>v0 = V, J = A, invJ = inv, detJ = det\<rparr>)"

definition computeElementGeometry ::
  "section_type \<Rightarrow> Mesh \<Rightarrow> real_section \<Rightarrow> point_type \<Rightarrow> exception + geometry" where
  "computeElementGeometry S m coordinates e =
     (if dim m = 2 then Inr (computeTriangleGeometry S coordinates e)
      else if dim m = 3 then Inr (computeTetrahedronGeometry S coordinates e)
      else Inl (Exception ''Unsupport dimension for element geometry computation''))"

subsection \<open>Point location\<close>

text \<open>
  The loop of \<^verbatim>\<open>locatePoint_2D\<close> over the cells. With \<^verbatim>\<open>detJ == 0\<close> the entries of
  \<^verbatim>\<open>invJ\<close> are infinities or NaNs, so \<^verbatim>\<open>xi\<close> and \<^verbatim>\<open>eta\<close> are too; were both
  \<^verbatim>\<open>>= 0.0\<close> they would be \<open>+\<infinity>\<close> and their sum not \<^verbatim>\<open><= 1.0\<close>. The test fails and
  the loop goes on to the next cell.

  \<^verbatim>\<open>locatePoint_2D\<close> and \<^verbatim>\<open>locatePoint_3D\<close> are modelled as \<^verbatim>\<open>locatePoint\<close> calls them, on
  a mesh of their own dimension. Called on a mesh of the other dimension the C++ code writes
  or reads past its local arrays, which the model does not describe.
\<close>

fun locatePoint_2D_cells ::
  "section_type \<Rightarrow> Mesh \<Rightarrow> real_section \<Rightarrow> (nat \<Rightarrow> real) \<Rightarrow> point_type list
     \<Rightarrow> exception + point_type" where
  "locatePoint_2D_cells S m coordinates point [] = Inl (Exception ''Could not locate point'')"
| "locatePoint_2D_cells S m coordinates point (c # cells) =
     (case computeElementGeometry S m coordinates c of
        Inl ex \<Rightarrow> Inl ex
      | Inr g \<Rightarrow>
          (case invJ g of
             None \<Rightarrow> locatePoint_2D_cells S m coordinates point cells
           | Some iJ \<Rightarrow>
               let embedDim = 2;
                   xi = iJ ! (0*embedDim+0) * (point 0 - v0 g ! 0) +
                        iJ ! (0*embedDim+1) * (point 1 - v0 g ! 1);
                   eta = iJ ! (1*embedDim+0) * (point 0 - v0 g ! 0) +
                         iJ ! (1*embedDim+1) * (point 1 - v0 g ! 1)
               in if xi \<ge> 0 \<and> eta \<ge> 0 \<and> xi + eta \<le> 1 then Inr c
                  else locatePoint_2D_cells S m coordinates point cells))"

definition locatePoint_2D ::
  "section_type \<Rightarrow> patch_type \<Rightarrow> (nat \<Rightarrow> real) \<Rightarrow> Mesh \<Rightarrow> (exception + point_type) \<times> Mesh" where
  "locatePoint_2D S patch point m =
     (let (coordinates, m1) = getRealSection ''coordinates'' m;
          cells = heightStratum (topology m1) patch 0
      in (locatePoint_2D_cells S m1 (real_heap m1 coordinates) point cells, m1))"

fun locatePoint_3D_cells ::
  "section_type \<Rightarrow> Mesh \<Rightarrow> real_section \<Rightarrow> (nat \<Rightarrow> real) \<Rightarrow> point_type list
     \<Rightarrow> exception + point_type" where
  "locatePoint_3D_cells S m coordinates point [] = Inl (Exception ''Could not locate point'')"
| "locatePoint_3D_cells S m coordinates point (c # cells) =
     (case computeElementGeometry S m coordinates c of
        Inl ex \<Rightarrow> Inl ex
      | Inr g \<Rightarrow>
          (case invJ g of
             None \<Rightarrow> locatePoint_3D_cells S m coordinates point cells
           | Some iJ \<Rightarrow>
               let embedDim = 3;
                   xi = iJ ! (0*embedDim+0) * (point 0 - v0 g ! 0) +
                        iJ ! (0*embedDim+1) * (point 1 - v0 g ! 1) +
                        iJ ! (0*embedDim+2) * (point 2 - v0 g ! 2);
                   eta = iJ ! (1*embedDim+0) * (point 0 - v0 g ! 0) +
                         iJ ! (1*embedDim+1) * (point 1 - v0 g ! 1) +
                         iJ ! (1*embedDim+2) * (point 2 - v0 g ! 2);
                   zeta = iJ ! (2*embedDim+0) * (point 0 - v0 g ! 0) +
                          iJ ! (2*embedDim+1) * (point 1 - v0 g ! 1) +
                          iJ ! (2*embedDim+2) * (point 2 - v0 g ! 2)
               in if xi \<ge> 0 \<and> eta \<ge> 0 \<and> zeta \<ge> 0 \<and> xi + eta + zeta \<le> 1 then Inr c
                  else locatePoint_3D_cells S m coordinates point cells))"

definition locatePoint_3D ::
  "section_type \<Rightarrow> patch_type \<Rightarrow> (nat \<Rightarrow> real) \<Rightarrow> Mesh \<Rightarrow> (exception + point_type) \<times> Mesh" where
  "locatePoint_3D S patch point m =
     (let (coordinates, m1) = getRealSection ''coordinates'' m;
          cells = heightStratum (topology m1) patch 0
      in (locatePoint_3D_cells S m1 (real_heap m1 coordinates) point cells, m1))"

definition locatePoint ::
  "section_type \<Rightarrow> patch_type \<Rightarrow> (nat \<Rightarrow> real) \<Rightarrow> Mesh \<Rightarrow> (exception + point_type) \<times> Mesh" where
  "locatePoint S patch point m =
     (if dim m = 2 then locatePoint_2D S patch point m
      else if dim m = 3 then locatePoint_3D S patch point m
      else (Inl (Exception ''No point location for mesh dimension''), m))"

subsection \<open>Boundary values for PCICE\<close>


definition setBCValue :: "int \<Rightarrow> bc_value_type \<Rightarrow> Mesh \<Rightarrow> Mesh" where
  "setBCValue bcFunc val m = m\<lparr>bcValues := table_set bcFunc val (bcValues m)\<rparr>"

text \<open>
  \<^verbatim>\<open>MPI_Bcast\<close> with root 0. The payloads the root has broadcast and a process has not yet
  received form a queue: the call on the root appends its buffer, the call on another process
  takes the head and stores it in its buffer. A process that finds the queue empty, or a payload
  of another shape than its buffer, does not return: the result is \<open>None\<close>.
\<close>

datatype payload = Ints "int list" | Doubles "real list"

text \<open>\<^verbatim>\<open>int size = this->_bcValues.size()\<close>: the conversion to a 32-bit \<^verbatim>\<open>int\<close>.\<close>

definition int_of_size :: "nat \<Rightarrow> int" where
  "int_of_size n = (int n + 2 ^ 31) mod 2 ^ 32 - 2 ^ 31"

text \<open>The root's loop over its table, in iterator order.\<close>

fun distributeBCValues_send :: "bc_value_type table \<Rightarrow> payload list" where
  "distributeBCValues_send [] = []"
| "distributeBCValues_send ((funcNum, funcVal) # rest) =
     Ints [funcNum] # Doubles [rho funcVal, u funcVal, v funcVal, p funcVal]
       # distributeBCValues_send rest"

text \<open>The loop \<^verbatim>\<open>for(bc = 0; bc < size; ++bc)\<close> of the other processes, by the iterations left.\<close>

fun distributeBCValues_recv ::
  "nat \<Rightarrow> bc_value_type table \<Rightarrow> payload list \<Rightarrow> (bc_value_type table \<times> payload list) option" where
  "distributeBCValues_recv 0 t q = Some (t, q)"
| "distributeBCValues_recv (Suc n) t (Ints [funcNum] # Doubles [a, b, c, d] # q) =
     distributeBCValues_recv n (table_set funcNum \<lparr>rho = a, u = b, v = c, p = d\<rparr> t) q"
| "distributeBCValues_recv (Suc n) t q = None"

definition distributeBCValues :: "Mesh \<Rightarrow> payload list \<Rightarrow> (Mesh \<times> payload list) option" where
  "distributeBCValues m q =
     (let size = int_of_size (length (bcValues m)) in
      if commRank m \<noteq> 0 then
        (case q of
           Ints [size'] # q1 \<Rightarrow>
             (case distributeBCValues_recv (nat size') (bcValues m) q1 of
                None \<Rightarrow> None
              | Some (t, q2) \<Rightarrow> Some (m\<lparr>bcValues := t\<rparr>, q2))
         | _ \<Rightarrow> None)
      else Some (m, q @ Ints [size] # distributeBCValues_send (bcValues m)))"

text \<open>
  A run on two processes: the call on the root (rank 0), then the call on the other process on
  what the root has broadcast.
\<close>

definition distributeBCValues_run2 :: "Mesh \<Rightarrow> Mesh \<Rightarrow> (Mesh \<times> Mesh) option" where
  "distributeBCValues_run2 m0 m1 =
     (case distributeBCValues m0 [] of
        None \<Rightarrow> None
      | Some (m0', q) \<Rightarrow>
          (case distributeBCValues m1 q of
             None \<Rightarrow> None
           | Some (m1', q') \<Rightarrow> Some (m0', m1')))"

subsection \<open>Field setup\<close>

text \<open>
  The negation \<^verbatim>\<open>-n\<close> of an \<^verbatim>\<open>int\<close>, as a 32-bit two's complement machine computes it: the
  negative of \<open>n\<close>, except that \<open>- 2 ^ 31\<close> is its own negation.
\<close>

definition negate_int :: "int \<Rightarrow> int" where
  "negate_int n = (- n + 2 ^ 31) mod 2 ^ 32 - 2 ^ 31"

text \<open>
  The bodies of the three loops of \<^verbatim>\<open>setupField\<close>, then the function. The first loop,
  \<^verbatim>\<open>for(int d = 0; d < this->_dim; ++d)\<close>, runs through \<open>[0..dim m - 1]\<close>; the other two run
  through the label sequence.
\<close>

definition setupField_depth :: "addr \<Rightarrow> patch_type \<Rightarrow> int \<Rightarrow> Mesh \<Rightarrow> Mesh" where
  "setupField_depth s patch d m =
     (let (numDof, m1) = getNumDof d m
      in section_do s (SetFiberDimensionByDepth patch d numDof) m1)"

definition setupField_constrain :: "addr \<Rightarrow> patch_type \<Rightarrow> point_type \<Rightarrow> Mesh \<Rightarrow> Mesh" where
  "setupField_constrain s patch e m =
     (let (numDof, m1) = getNumDof (depth (topology m) patch e) m
      in section_do s (SetFiberDimension patch e (negate_int numDof)) m1)"

definition setupField_value ::
  "section_type \<Rightarrow> addr \<Rightarrow> addr \<Rightarrow> patch_type \<Rightarrow> point_type \<Rightarrow> Mesh \<Rightarrow> Mesh" where
  "setupField_value S coordinates s patch e m =
     (let coords = restrictPoint S (real_heap m coordinates) patch e;
          val = evaluate m coords
      in section_do s (UpdateBC patch e val) m)"

definition setupField :: "section_type \<Rightarrow> addr \<Rightarrow> Mesh \<Rightarrow> Mesh" where
  "setupField S s m =
     (let name = labelName m;
          patch = 0;
          m1 = fold (setupField_depth s patch) [0..dim m - 1] m;
          m2 = (if name \<noteq> [] then
                  fold (setupField_constrain s patch) (getLabelStratum (topology m1) patch name 1) m1
                else m1);
          m3 = section_do s Allocate m2
      in if name \<noteq> [] then
           let (coordinates, m4) = getRealSection ''coordinates'' m3;
               boundary = getLabelStratum (topology m4) patch name 1
           in fold (setupField_value S coordinates s patch) boundary m4
         else m3)"

text \<open>
  The specification of field setup, in its own words: the calls made on the section are the
  bulk assignments by depth, then (with a label) one negated assignment for each point of the
  label's stratum of value 1, then \<open>Allocate\<close>, then (with a label) one \<open>UpdateBC\<close> for each of
  these points with the functional evaluated on the point's restriction of the coordinates
  section. The coordinates section is read as it is at that call: when the field is the
  coordinates section itself (\<open>alias\<close>), it has received the earlier calls.
  \<open>setupField_negated\<close> are the negated assignments with the mathematical negative, and
  \<open>setupField_constraints\<close> with the machine's negation; they agree unless a dof count is
  \<open>- 2 ^ 31\<close>.
\<close>

definition setupField_bulk :: "Mesh \<Rightarrow> section_call list" where
  "setupField_bulk m =
     map (\<lambda>d. SetFiberDimensionByDepth 0 d (fst (getNumDof d m))) [0..dim m - 1]"

definition setupField_negated :: "Mesh \<Rightarrow> section_call list" where
  "setupField_negated m =
     map (\<lambda>e. SetFiberDimension 0 e (- fst (getNumDof (depth (topology m) 0 e) m)))
       (getLabelStratum (topology m) 0 (labelName m) 1)"

definition setupField_constraints :: "Mesh \<Rightarrow> section_call list" where
  "setupField_constraints m =
     map (\<lambda>e. SetFiberDimension 0 e (negate_int (fst (getNumDof (depth (topology m) 0 e) m))))
       (getLabelStratum (topology m) 0 (labelName m) 1)"

fun setupField_updates ::
  "section_type \<Rightarrow> ((nat \<Rightarrow> real) \<Rightarrow> real) \<Rightarrow> bool \<Rightarrow> patch_type \<Rightarrow> real_section
     \<Rightarrow> point_type list \<Rightarrow> section_call list" where
  "setupField_updates S f alias patch coordinates [] = []"
| "setupField_updates S f alias patch coordinates (e # es) =
     (let c = UpdateBC patch e (f (restrictPoint S coordinates patch e))
      in c # setupField_updates S f alias patch
               (if alias then coordinates @ [c] else coordinates) es)"

definition setupField_values :: "section_type \<Rightarrow> addr \<Rightarrow> Mesh \<Rightarrow> section_call list" where
  "setupField_values S s m =
     (let coordinates =
            (case realSections m ''coordinates'' of
               None \<Rightarrow> []
             | Some c \<Rightarrow>
                 if c = s
                 then real_heap m s @ setupField_bulk m @ setupField_constraints m @ [Allocate]
                 else real_heap m c)
      in setupField_updates S (func m) (realSections m ''coordinates'' = Some s) 0 coordinates
           (getLabelStratum (topology m) 0 (labelName m) 1))"

definition byDepth :: "section_call \<Rightarrow> bool" where
  "byDepth c = (case c of SetFiberDimensionByDepth patch d n \<Rightarrow> True | _ \<Rightarrow> False)"

subsection \<open>A mesh of one triangle\<close>

text \<open>
  The unit right triangle: cell 0 (depth 2) over the edges 4, 5, 6 (depth 1) and the vertices
  1, 2, 3 (depth 0) at (0,0), (1,0), (0,1); edges and vertices are marked 1 by the label
  \<open>marker\<close>. The coordinates section is the object at address 1, and address 2 holds a second,
  empty real section. The discretization has one dof per vertex and one per cell.
\<close>

definition coords_of :: "real list \<Rightarrow> nat \<Rightarrow> real" where
  "coords_of xs i = (if i < length xs then xs ! i else 0)"

definition unit_triangle_section :: section_type where
  "unit_triangle_section =
     \<lparr>restrict = (\<lambda>h patch e. coords_of [0, 0, 1, 0, 0, 1]),
      restrictPoint = (\<lambda>h patch e. coords_of (if e = 1 then [0, 0]
                                              else if e = 2 then [1, 0]
                                              else if e = 3 then [0, 1] else []))\<rparr>"

definition unit_triangle_topology :: topology_type where
  "unit_triangle_topology =
     \<lparr>heightStratum = (\<lambda>patch h. if h = 0 then [0] else if h = 1 then [4, 5, 6]
                                   else if h = 2 then [1, 2, 3] else []),
      getLabelStratum = (\<lambda>patch name val. if name = ''marker'' \<and> val = 1
                                            then [1, 2, 3, 4, 5, 6] else []),
      depth = (\<lambda>patch e. if e = 0 then 2 else if e \<in> {4, 5, 6} then 1 else 0)\<rparr>"

definition unit_triangle_mesh :: Mesh where
  "unit_triangle_mesh =
     \<lparr>debug = 0, commRank = 0, topology = unit_triangle_topology, distributed = False,
      realSections = [''coordinates'' \<mapsto> 1], intSections = Map.empty, pairSections = Map.empty,
      heap_next = 3, real_heap = (\<lambda>a. []), cout = [],
      dim = 2, bcValues = [], dim2dof = [(0, 1), (2, 1)], dim2class = [], labelName = [],
      func = (\<lambda>x. x 0 + x 1)\<rparr>"


definition skew_tetrahedron :: section_type where
  "skew_tetrahedron =
     \<lparr>restrict = (\<lambda>h patch e. coords_of [0, 0, 0, 2, 0, 0, 2, 2, 0, 0, 0, 2]),
      restrictPoint = (\<lambda>h patch e i. 0)\<rparr>"

text \<open>
  A three-dimensional mesh whose only cell is cell 0, for the tetrahedron above, and the
  product of a 3\<times>3 matrix (stored by rows, as \<open>J\<close> is) with a vector.
\<close>

definition skew_tetrahedron_mesh :: Mesh where
  "skew_tetrahedron_mesh = unit_triangle_mesh\<lparr>dim := 3\<rparr>"

definition apply3 :: "real list \<Rightarrow> real list \<Rightarrow> real list" where
  "apply3 A x =
     [A ! 0 * x ! 0 + A ! 1 * x ! 1 + A ! 2 * x ! 2,
      A ! 3 * x ! 0 + A ! 4 * x ! 1 + A ! 5 * x ! 2,
      A ! 6 * x ! 0 + A ! 7 * x ! 1 + A ! 8 * x ! 2]"

text \<open>The triangle mesh with the boundary condition on the label \<open>marker\<close>.\<close>

definition marked_triangle_mesh :: Mesh where
  "marked_triangle_mesh = unit_triangle_mesh\<lparr>labelName := ''marker''\<rparr>"

text \<open>Boundary-value tables: one for the process of rank 0, two for a process of rank 1.\<close>

definition root_mesh :: Mesh where
  "root_mesh =
     unit_triangle_mesh\<lparr>bcValues := [(3, \<lparr>rho = 1, u = 0, v = 0, p = 1\<rparr>),
                                      (7, \<lparr>rho = 5, u = 6, v = 7, p = 8\<rparr>)]\<rparr>"

definition other_mesh :: Mesh where
  "other_mesh =
     unit_triangle_mesh\<lparr>commRank := 1, bcValues := [(7, \<lparr>rho = 1, u = 2, v = 3, p = 4\<rparr>)]\<rparr>"

definition other_mesh_extra :: Mesh where
  "other_mesh_extra =
     unit_triangle_mesh\<lparr>commRank := 1, bcValues := [(7, \<lparr>rho = 1, u = 2, v = 3, p = 4\<rparr>),
                                                      (9, \<lparr>rho = 9, u = 9, v = 9, p = 9\<rparr>)]\<rparr>"

subsection \<open>Auxiliary notions\<close>

text \<open>
  The dof count a table yields, and the relation between two states of a mesh that differ by
  calls appended to the section at \<open>s\<close> and by default entries that reading \<open>dim2dof\<close> inserted.
\<close>

definition numDof :: "int table \<Rightarrow> int \<Rightarrow> int" where
  "numDof t d = (case map_of t d of Some n \<Rightarrow> n | None \<Rightarrow> 0)"

definition appended :: "addr \<Rightarrow> section_call list \<Rightarrow> Mesh \<Rightarrow> Mesh \<Rightarrow> bool" where
  "appended s cs m m' =
     (\<exists>t. m' = m\<lparr>real_heap := (real_heap m)(s := real_heap m s @ cs), dim2dof := t\<rparr>
          \<and> numDof t = numDof (dim2dof m))"

section \<open>Properties\<close>

subsection \<open>Element geometry\<close>

lemma upt2: "[0..<2] = [0, Suc 0]"
  by (simp add: upt_conv_Cons)

lemma upt3: "[0..<3] = [0, Suc 0, 2]"
  by (simp add: upt_conv_Cons numeral_3_eq_3)

lemma triangle_J:
  "J (computeTriangleGeometry S coordinates e) =
     (let c = restrict S coordinates 0 e
      in [(c 2 - c 0) / 2, (c 4 - c 0) / 2, (c 3 - c 1) / 2, (c 5 - c 1) / 2])"
  by (simp add: computeTriangleGeometry_def Let_def upt2 numeral_eq_Suc)

lemma triangle_v0:
  "v0 (computeTriangleGeometry S coordinates e) =
     [restrict S coordinates 0 e 0, restrict S coordinates 0 e 1]"
  by (simp add: computeTriangleGeometry_def Let_def upt2)

lemma triangle_detJ:
  "detJ (computeTriangleGeometry S coordinates e) =
     (let A = J (computeTriangleGeometry S coordinates e) in A ! 0 * A ! 3 - A ! 1 * A ! 2)"
  by (simp add: computeTriangleGeometry_def Let_def)

lemma triangle_invJ:
  "invJ (computeTriangleGeometry S coordinates e) =
     (let g = computeTriangleGeometry S coordinates e; A = J g
      in if detJ g = 0 then None
         else Some [A ! 3 / detJ g, - (A ! 1 / detJ g), - (A ! 2 / detJ g), A ! 0 / detJ g])"
  by (simp add: computeTriangleGeometry_def Let_def)

lemma tetrahedron_J:
  "J (computeTetrahedronGeometry S coordinates e) =
     (let c = restrict S coordinates 0 e
      in [(c 3 - c 0) / 2, (c 6 - c 0) / 2, (c 9 - c 0) / 2,
          (c 4 - c 1) / 2, (c 7 - c 1) / 2, (c 10 - c 1) / 2,
          (c 5 - c 2) / 2, (c 8 - c 2) / 2, (c 11 - c 2) / 2])"
  by (simp add: computeTetrahedronGeometry_def Let_def upt3 numeral_eq_Suc)

lemma tetrahedron_v0:
  "v0 (computeTetrahedronGeometry S coordinates e) =
     [restrict S coordinates 0 e 0, restrict S coordinates 0 e 1, restrict S coordinates 0 e 2]"
  by (simp add: computeTetrahedronGeometry_def Let_def upt3)

lemma tetrahedron_detJ:
  "detJ (computeTetrahedronGeometry S coordinates e) =
     (let A = J (computeTetrahedronGeometry S coordinates e)
      in A ! 0 * (A ! 4 * A ! 8 - A ! 5 * A ! 7) +
         A ! 1 * (A ! 5 * A ! 6 - A ! 3 * A ! 8) +
         A ! 2 * (A ! 3 * A ! 7 - A ! 4 * A ! 6))"
  by (simp add: computeTetrahedronGeometry_def Let_def del: add_2_eq_Suc add_2_eq_Suc')

lemma tetrahedron_invJ:
  "invJ (computeTetrahedronGeometry S coordinates e) =
     (let g = computeTetrahedronGeometry S coordinates e; A = J g
      in if detJ g = 0 then None
         else Some [(A ! 4 * A ! 8 - A ! 5 * A ! 7) / detJ g,
                    (A ! 5 * A ! 6 - A ! 3 * A ! 8) / detJ g,
                    (A ! 3 * A ! 7 - A ! 4 * A ! 6) / detJ g,
                    (A ! 1 * A ! 8 - A ! 2 * A ! 7) / detJ g,
                    (A ! 2 * A ! 6 - A ! 0 * A ! 8) / detJ g,
                    (A ! 0 * A ! 7 - A ! 1 * A ! 6) / detJ g,
                    (A ! 1 * A ! 5 - A ! 2 * A ! 4) / detJ g,
                    (A ! 2 * A ! 3 - A ! 0 * A ! 5) / detJ g,
                    (A ! 0 * A ! 4 - A ! 1 * A ! 3) / detJ g])"
  by (simp add: computeTetrahedronGeometry_def Let_def del: add_2_eq_Suc add_2_eq_Suc')

lemma unit_triangle_reads:
  assumes "map (restrict S coordinates 0 e) [0..<6] = [0, 0, 1, 0, 0, 1]"
  shows "restrict S coordinates 0 e 0 = 0" "restrict S coordinates 0 e (Suc 0) = 0"
    "restrict S coordinates 0 e 2 = 1" "restrict S coordinates 0 e 3 = 0"
    "restrict S coordinates 0 e 4 = 0" "restrict S coordinates 0 e 5 = 1"
proof -
  have r: "restrict S coordinates 0 e i = [0, 0, 1, 0, 0, 1] ! i" if "i < 6" for i
  proof -
    have "map (restrict S coordinates 0 e) [0..<6] ! i = restrict S coordinates 0 e i"
      using that by simp
    then show ?thesis using assms by simp
  qed
  show "restrict S coordinates 0 e 0 = 0" by (simp add: r)
  show "restrict S coordinates 0 e (Suc 0) = 0" by (simp add: r)
  show "restrict S coordinates 0 e 2 = 1" by (simp add: r)
  show "restrict S coordinates 0 e 3 = 0" by (simp add: r)
  show "restrict S coordinates 0 e 4 = 0" by (simp add: r)
  show "restrict S coordinates 0 e 5 = 1" by (simp add: r)
qed

lemma unit_triangle_geometry:
  assumes "map (restrict S coordinates 0 e) [0..<6] = [0, 0, 1, 0, 0, 1]"
  shows "computeTriangleGeometry S coordinates e =
           \<lparr>v0 = [0, 0], J = [1/2, 0, 0, 1/2], invJ = Some [2, 0, 0, 2], detJ = 1/4\<rparr>"
proof -
  have A: "J (computeTriangleGeometry S coordinates e) = [1/2, 0, 0, 1/2]"
    by (simp add: triangle_J unit_triangle_reads [OF assms] Let_def)
  have D: "detJ (computeTriangleGeometry S coordinates e) = 1/4"
    by (simp add: triangle_detJ A)
  have V: "v0 (computeTriangleGeometry S coordinates e) = [0, 0]"
    by (simp add: triangle_v0 unit_triangle_reads [OF assms])
  have I: "invJ (computeTriangleGeometry S coordinates e) = Some [2, 0, 0, 2]"
    by (simp add: triangle_invJ A D Let_def)
  show ?thesis by (rule geometry.equality) (simp_all add: A D V I)
qed

lemma unit_triangle_section_reads:
  "map (restrict unit_triangle_section h 0 c) [0..<6] = [0, 0, 1, 0, 0, 1]"
  by (simp add: unit_triangle_section_def coords_of_def upt_conv_Cons numeral_eq_Suc)

text \<open>
  C5. For the unit right triangle with vertices (0,0), (1,0), (0,1), read in that order from the
  coordinates section, \<open>computeElementGeometry\<close> on a two-dimensional mesh returns the Jacobian
  of halved edge vectors, and its determinant \<open>detJ\<close> is 1/4 (not 1).
\<close>

theorem unit_triangle_detJ:
  assumes "dim m = 2"
    and "map (restrict S coordinates 0 e) [0..<6] = [0, 0, 1, 0, 0, 1]"
  shows "computeElementGeometry S m coordinates e = Inr (computeTriangleGeometry S coordinates e)
         \<and> J (computeTriangleGeometry S coordinates e) = [1/2, 0, 0, 1/2]
         \<and> detJ (computeTriangleGeometry S coordinates e) = 1/4"
  using assms by (simp add: computeElementGeometry_def unit_triangle_geometry)

theorem unit_triangle_detJ_witness:
  "computeElementGeometry unit_triangle_section unit_triangle_mesh [] 0
     = Inr (computeTriangleGeometry unit_triangle_section [] 0)
   \<and> detJ (computeTriangleGeometry unit_triangle_section [] 0) = 1/4"
  using unit_triangle_detJ [of unit_triangle_mesh unit_triangle_section "[]" 0]
  by (simp add: unit_triangle_section_reads unit_triangle_mesh_def)

text \<open>The determinant the code returns for the unit right triangle is not 1.\<close>

theorem unit_triangle_detJ_not_one:
  "computeElementGeometry unit_triangle_section unit_triangle_mesh [] 0
     = Inr (computeTriangleGeometry unit_triangle_section [] 0)
   \<and> detJ (computeTriangleGeometry unit_triangle_section [] 0) \<noteq> 1"
  by (simp add: computeElementGeometry_def unit_triangle_mesh_def
      unit_triangle_geometry [OF unit_triangle_section_reads])

text \<open>
  C7. On a mesh whose dimension is neither 2 nor 3, \<open>computeElementGeometry\<close> raises the
  unsupported-dimension exception for every cell and \<open>locatePoint\<close> raises an exception for every
  query point; neither returns a result.
\<close>

theorem unsupported_dimension:
  assumes "dim m \<noteq> 2" and "dim m \<noteq> 3"
  shows "computeElementGeometry S m coordinates e
           = Inl (Exception ''Unsupport dimension for element geometry computation'')
         \<and> locatePoint S patch point m
           = (Inl (Exception ''No point location for mesh dimension''), m)"
  using assms by (simp add: computeElementGeometry_def locatePoint_def)

theorem unsupported_dimension_witness:
  "computeElementGeometry unit_triangle_section (unit_triangle_mesh\<lparr>dim := 1\<rparr>) [] 0
     = Inl (Exception ''Unsupport dimension for element geometry computation'')
   \<and> locatePoint unit_triangle_section 0 (\<lambda>i. 1/4) (unit_triangle_mesh\<lparr>dim := 1\<rparr>)
     = (Inl (Exception ''No point location for mesh dimension''), unit_triangle_mesh\<lparr>dim := 1\<rparr>)"
  using unsupported_dimension
    [of "unit_triangle_mesh\<lparr>dim := 1\<rparr>" unit_triangle_section "[]" 0 0 "\<lambda>i. 1/4"]
  by simp



text \<open>
  In exact arithmetic and with \<open>detJ\<close> not zero, \<open>invJ\<close> of a triangle is the inverse matrix of
  \<open>J\<close>.
\<close>

lemma triangle_invJ_inverse:
  assumes "detJ (computeTriangleGeometry S coordinates e) \<noteq> 0"
  shows "\<exists>iJ. invJ (computeTriangleGeometry S coordinates e) = Some iJ \<and>
    (let A = J (computeTriangleGeometry S coordinates e)
     in A ! 0 * iJ ! 0 + A ! 1 * iJ ! 2 = 1 \<and> A ! 0 * iJ ! 1 + A ! 1 * iJ ! 3 = 0 \<and>
        A ! 2 * iJ ! 0 + A ! 3 * iJ ! 2 = 0 \<and> A ! 2 * iJ ! 1 + A ! 3 * iJ ! 3 = 1)"
proof -
  define A where "A = J (computeTriangleGeometry S coordinates e)"
  define D where "D = detJ (computeTriangleGeometry S coordinates e)"
  have D: "D = A ! 0 * A ! 3 - A ! 1 * A ! 2"
    by (simp add: D_def A_def triangle_detJ Let_def)
  have nz: "D \<noteq> 0"
    using assms by (simp add: D_def)
  have I: "invJ (computeTriangleGeometry S coordinates e) =
             Some [A ! 3 / D, - (A ! 1 / D), - (A ! 2 / D), A ! 0 / D]"
    using assms by (simp add: triangle_invJ Let_def A_def D_def)
  have "A ! 0 * (A ! 3 / D) + A ! 1 * (- (A ! 2 / D)) = (A ! 0 * A ! 3 - A ! 1 * A ! 2) / D"
    by (simp add: diff_divide_distrib)
  then have 1: "A ! 0 * (A ! 3 / D) + A ! 1 * (- (A ! 2 / D)) = 1"
    using nz D by simp
  have "A ! 2 * (- (A ! 1 / D)) + A ! 3 * (A ! 0 / D) = (A ! 0 * A ! 3 - A ! 1 * A ! 2) / D"
    by (simp add: diff_divide_distrib mult.commute)
  then have 2: "A ! 2 * (- (A ! 1 / D)) + A ! 3 * (A ! 0 / D) = 1"
    using nz D by simp
  have 3: "A ! 0 * (- (A ! 1 / D)) + A ! 1 * (A ! 0 / D) = 0"
    "A ! 2 * (A ! 3 / D) + A ! 3 * (- (A ! 2 / D)) = 0"
    by simp_all
  show ?thesis
    using 1 2 3 by (simp add: I A_def [symmetric] Let_def)
qed

text \<open>
  The 3\<times>3 formula stores cofactors without transposing them and with the middle row negated.
  For the tetrahedron (0,0,0), (2,0,0), (2,2,0), (0,0,2) the array \<open>invJ\<close> is not the inverse
  matrix of \<open>J\<close>: the first entry of the product is \<open>1 * 1 + 1 * 1 + 0 * 0 = 2\<close>.
\<close>

lemma skew_tetrahedron_geometry:
  "J (computeTetrahedronGeometry skew_tetrahedron [] 0) = [1, 1, 0, 0, 1, 0, 0, 0, 1]"
  "invJ (computeTetrahedronGeometry skew_tetrahedron [] 0) = Some [1, 0, 0, 1, - 1, 0, 0, 0, 1]"
proof -
  show A: "J (computeTetrahedronGeometry skew_tetrahedron [] 0) = [1, 1, 0, 0, 1, 0, 0, 0, 1]"
    by (simp add: tetrahedron_J skew_tetrahedron_def coords_of_def)
  have D: "detJ (computeTetrahedronGeometry skew_tetrahedron [] 0) = 1"
    by (simp add: tetrahedron_detJ A)
  show "invJ (computeTetrahedronGeometry skew_tetrahedron [] 0)
          = Some [1, 0, 0, 1, - 1, 0, 0, 0, 1]"
    by (simp add: tetrahedron_invJ A D Let_def)
qed

subsection \<open>Point location\<close>

lemma getRealSection_present:
  "realSections b name = Some a \<Longrightarrow> getRealSection name b = (a, b)"
  by (simp add: getRealSection_def map_index_def Let_def)

text \<open>
  C2. \<open>locatePoint\<close> is to return the first cell of the height-0 stratum in which the reference
  coordinates of the query point, computed from the cell's inverse Jacobian and origin vertex,
  are each at least 0 and sum to at most 1. In three dimensions it does not: the array \<open>invJ\<close> it
  uses is not the inverse of \<open>J\<close>. On the mesh of the one tetrahedron (0,0,0), (2,0,0), (2,2,0),
  (0,0,2) the point (7/8, 1/2, 0) has the reference coordinates (3/8, 1/2, 0), since \<open>J\<close> maps
  these to the offset of the point from \<open>v0\<close>; they are not negative and sum to 7/8. The code
  computes (7/8, 3/8, 0) from \<open>invJ\<close>, whose sum exceeds 1, accepts no cell and raises
  \<open>Could not locate point\<close>. Every value in this computation is a double, so exact arithmetic is
  the code's.
\<close>

theorem skew_tetrahedron_locatePoint:
  "locatePoint skew_tetrahedron 0 (coords_of [7/8, 1/2, 0]) skew_tetrahedron_mesh
     = (Inl (Exception ''Could not locate point''), skew_tetrahedron_mesh)
   \<and> heightStratum (topology skew_tetrahedron_mesh) 0 0 = [0]
   \<and> v0 (computeTetrahedronGeometry skew_tetrahedron [] 0) = [0, 0, 0]
   \<and> J (computeTetrahedronGeometry skew_tetrahedron [] 0) = [1, 1, 0, 0, 1, 0, 0, 0, 1]
   \<and> apply3 (J (computeTetrahedronGeometry skew_tetrahedron [] 0)) [3/8, 1/2, 0]
       = [7/8, 1/2, 0]
   \<and> invJ (computeTetrahedronGeometry skew_tetrahedron [] 0)
       = Some [1, 0, 0, 1, - 1, 0, 0, 0, 1]
   \<and> apply3 [1, 0, 0, 1, - 1, 0, 0, 0, 1] [7/8, 1/2, 0] = [7/8, 3/8, 0]"
proof -
  let ?g = "computeTetrahedronGeometry skew_tetrahedron [] 0"
  have V: "v0 ?g = [0, 0, 0]"
    by (simp add: tetrahedron_v0 skew_tetrahedron_def coords_of_def)
  have d: "dim skew_tetrahedron_mesh = 3"
    and r: "realSections skew_tetrahedron_mesh ''coordinates'' = Some 1"
    and h: "heightStratum (topology skew_tetrahedron_mesh) 0 0 = [0]"
    and e: "real_heap skew_tetrahedron_mesh (Suc 0) = []"
    by (simp_all add: skew_tetrahedron_mesh_def unit_triangle_mesh_def unit_triangle_topology_def)
  have g: "computeElementGeometry skew_tetrahedron skew_tetrahedron_mesh [] 0 = Inr ?g"
    by (simp add: computeElementGeometry_def d)
  have c: "locatePoint_3D_cells skew_tetrahedron skew_tetrahedron_mesh []
             (coords_of [7/8, 1/2, 0]) [0] = Inl (Exception ''Could not locate point'')"
    by (simp add: g) (simp add: V skew_tetrahedron_geometry(2) coords_of_def)
  have "locatePoint skew_tetrahedron 0 (coords_of [7/8, 1/2, 0]) skew_tetrahedron_mesh
     = (Inl (Exception ''Could not locate point''), skew_tetrahedron_mesh)"
    by (simp add: locatePoint_def locatePoint_3D_def d getRealSection_present [OF r] h e c
        del: locatePoint_3D_cells.simps)
  then show ?thesis
    by (simp add: h V skew_tetrahedron_geometry apply3_def)
qed

text \<open>
  C6. On a two-dimensional mesh whose only cell is the unit right triangle with vertices (0,0),
  (1,0), (0,1), \<open>locatePoint\<close> returns that cell for the query point (0.25, 0.25) and raises
  \<open>Could not locate point\<close> for the query point (2, 2).
\<close>

theorem unit_triangle_locatePoint:
  assumes "dim m = 2"
    and "realSections m ''coordinates'' = Some a"
    and "heightStratum (topology m) patch 0 = [c]"
    and "map (restrict S (real_heap m a) 0 c) [0..<6] = [0, 0, 1, 0, 0, 1]"
    and "inside 0 = 1/4" and "inside 1 = 1/4"
    and "outside 0 = 2" and "outside 1 = 2"
  shows "locatePoint S patch inside m = (Inr c, m)
         \<and> locatePoint S patch outside m = (Inl (Exception ''Could not locate point''), m)"
proof -
  have g: "computeElementGeometry S m (real_heap m a) c =
             Inr \<lparr>v0 = [0, 0], J = [1/2, 0, 0, 1/2], invJ = Some [2, 0, 0, 2], detJ = 1/4\<rparr>"
    using assms(1) by (simp add: computeElementGeometry_def unit_triangle_geometry [OF assms(4)])
  have "locatePoint_2D_cells S m (real_heap m a) inside [c] = Inr c"
    using assms(5,6) by (simp add: g)
  moreover have "locatePoint_2D_cells S m (real_heap m a) outside [c]
                   = Inl (Exception ''Could not locate point'')"
    using assms(7,8) by (simp add: g)
  ultimately show ?thesis
    using assms(1,3)
    by (simp add: locatePoint_def locatePoint_2D_def getRealSection_present [OF assms(2)])
qed

theorem unit_triangle_locatePoint_witness:
  "locatePoint unit_triangle_section 0 (\<lambda>i. 1/4) unit_triangle_mesh = (Inr 0, unit_triangle_mesh)
   \<and> locatePoint unit_triangle_section 0 (\<lambda>i. 2) unit_triangle_mesh
       = (Inl (Exception ''Could not locate point''), unit_triangle_mesh)"
proof -
  have 1: "dim unit_triangle_mesh = 2"
    and 2: "realSections unit_triangle_mesh ''coordinates'' = Some 1"
    and 3: "heightStratum (topology unit_triangle_mesh) 0 0 = [0]"
    by (simp_all add: unit_triangle_mesh_def unit_triangle_topology_def)
  show ?thesis
    using unit_triangle_locatePoint [OF 1 2 3 unit_triangle_section_reads,
        of "\<lambda>i. 1/4" "\<lambda>i. 2"]
    by simp
qed

subsection \<open>Section registries\<close>

text \<open>
  C8. The three section registries are get-or-create and idempotent. When the registry has the
  name, \<open>getRealSection\<close> returns the section bound to it and changes nothing. When it has not,
  \<open>getRealSection\<close> creates a section: it returns the address the next \<^verbatim>\<open>new\<close> yields, which
  then holds an empty section; the registry binds the name to it and keeps every other
  binding; with \<open>debug\<close> set a line is printed; nothing else changes. In both cases
  \<open>hasRealSection\<close> holds afterwards, and a second call with the same name returns the same
  section and leaves the whole state, registry and heap, unchanged. The same holds for
  \<open>getIntSection\<close> and \<open>getPairSection\<close> on their registries.
\<close>

theorem section_registries_get_or_create:
  "(case realSections b name of
      Some a \<Rightarrow> getRealSection name b = (a, b)
    | None \<Rightarrow>
        getRealSection name b =
          (heap_next b,
           b\<lparr>realSections := (realSections b)(name \<mapsto> heap_next b),
             heap_next := Suc (heap_next b),
             real_heap := (real_heap b)(heap_next b := []),
             cout := (if debug b \<noteq> 0
                      then cout b @ [''Creating new real section: '' @ name]
                      else cout b)\<rparr>))
   \<and> (case getRealSection name b of (s1, b1) \<Rightarrow>
        hasRealSection name b1 \<and> realSections b1 name = Some s1
        \<and> getRealSection name b1 = (s1, b1))
   \<and> (case intSections b name of
      Some a \<Rightarrow> getIntSection name b = (a, b)
    | None \<Rightarrow>
        getIntSection name b =
          (heap_next b,
           b\<lparr>intSections := (intSections b)(name \<mapsto> heap_next b),
             heap_next := Suc (heap_next b),
             real_heap := (real_heap b)(heap_next b := []),
             cout := (if debug b \<noteq> 0
                      then cout b @ [''Creating new int section: '' @ name]
                      else cout b)\<rparr>))
   \<and> (case getIntSection name b of (s1, b1) \<Rightarrow>
        hasIntSection name b1 \<and> intSections b1 name = Some s1
        \<and> getIntSection name b1 = (s1, b1))
   \<and> (case pairSections b name of
      Some a \<Rightarrow> getPairSection name b = (a, b)
    | None \<Rightarrow>
        getPairSection name b =
          (heap_next b,
           b\<lparr>pairSections := (pairSections b)(name \<mapsto> heap_next b),
             heap_next := Suc (heap_next b),
             real_heap := (real_heap b)(heap_next b := []),
             cout := (if debug b \<noteq> 0
                      then cout b @ [''Creating new pair section: '' @ name]
                      else cout b)\<rparr>))
   \<and> (case getPairSection name b of (s1, b1) \<Rightarrow>
        hasPairSection name b1 \<and> pairSections b1 name = Some s1
        \<and> getPairSection name b1 = (s1, b1))"
proof -
  have R: "(case realSections b name of
      Some a \<Rightarrow> getRealSection name b = (a, b)
    | None \<Rightarrow>
        getRealSection name b =
          (heap_next b,
           b\<lparr>realSections := (realSections b)(name \<mapsto> heap_next b),
             heap_next := Suc (heap_next b),
             real_heap := (real_heap b)(heap_next b := []),
             cout := (if debug b \<noteq> 0
                      then cout b @ [''Creating new real section: '' @ name]
                      else cout b)\<rparr>))
   \<and> (case getRealSection name b of (s1, b1) \<Rightarrow>
        hasRealSection name b1 \<and> realSections b1 name = Some s1
        \<and> getRealSection name b1 = (s1, b1))"
    by (cases "realSections b name")
      (simp_all add: getRealSection_def hasRealSection_def map_index_def new_section_def
        print_line_def Let_def)
  have I: "(case intSections b name of
      Some a \<Rightarrow> getIntSection name b = (a, b)
    | None \<Rightarrow>
        getIntSection name b =
          (heap_next b,
           b\<lparr>intSections := (intSections b)(name \<mapsto> heap_next b),
             heap_next := Suc (heap_next b),
             real_heap := (real_heap b)(heap_next b := []),
             cout := (if debug b \<noteq> 0
                      then cout b @ [''Creating new int section: '' @ name]
                      else cout b)\<rparr>))
   \<and> (case getIntSection name b of (s1, b1) \<Rightarrow>
        hasIntSection name b1 \<and> intSections b1 name = Some s1
        \<and> getIntSection name b1 = (s1, b1))"
    by (cases "intSections b name")
      (simp_all add: getIntSection_def hasIntSection_def map_index_def new_section_def
        print_line_def Let_def)
  have P: "(case pairSections b name of
      Some a \<Rightarrow> getPairSection name b = (a, b)
    | None \<Rightarrow>
        getPairSection name b =
          (heap_next b,
           b\<lparr>pairSections := (pairSections b)(name \<mapsto> heap_next b),
             heap_next := Suc (heap_next b),
             real_heap := (real_heap b)(heap_next b := []),
             cout := (if debug b \<noteq> 0
                      then cout b @ [''Creating new pair section: '' @ name]
                      else cout b)\<rparr>))
   \<and> (case getPairSection name b of (s1, b1) \<Rightarrow>
        hasPairSection name b1 \<and> pairSections b1 name = Some s1
        \<and> getPairSection name b1 = (s1, b1))"
    by (cases "pairSections b name")
      (simp_all add: getPairSection_def hasPairSection_def map_index_def new_section_def
        print_line_def Let_def)
  from R I P show ?thesis
    by (intro conjI) (erule conjunct1 conjunct2)+
qed

text \<open>
  A section created for a name that the registry has not is a new object: no name of the
  registry was bound to it, provided every bound section is an allocated one.
\<close>

lemma getRealSection_fresh:
  assumes "realSections b name = None"
    and "\<forall>a \<in> ran (realSections b). a < heap_next b"
  shows "fst (getRealSection name b) \<notin> ran (realSections b)"
proof -
  have "fst (getRealSection name b) = heap_next b"
    using assms(1)
    by (simp add: getRealSection_def map_index_def new_section_def print_line_def Let_def)
  then show ?thesis
    using assms(2) by auto
qed

theorem section_registries_get_or_create_witness:
  "getRealSection ''coordinates'' unit_triangle_mesh = (1, unit_triangle_mesh)
   \<and> fst (getRealSection ''u'' unit_triangle_mesh) = 3
   \<and> realSections (snd (getRealSection ''u'' unit_triangle_mesh))
       = [''coordinates'' \<mapsto> 1, ''u'' \<mapsto> 3]
   \<and> heap_next (snd (getRealSection ''u'' unit_triangle_mesh)) = 4
   \<and> hasRealSection ''u'' (snd (getRealSection ''u'' unit_triangle_mesh))
   \<and> getRealSection ''u'' (snd (getRealSection ''u'' unit_triangle_mesh))
       = getRealSection ''u'' unit_triangle_mesh"
proof -
  have c: "realSections unit_triangle_mesh ''coordinates'' = Some 1"
    and n: "realSections unit_triangle_mesh ''u'' = None"
    and k: "heap_next unit_triangle_mesh = 3"
    and r: "realSections unit_triangle_mesh = [''coordinates'' \<mapsto> 1]"
    by (simp_all add: unit_triangle_mesh_def)
  have 1: "getRealSection ''coordinates'' unit_triangle_mesh = (1, unit_triangle_mesh)"
    using section_registries_get_or_create
      [where b = unit_triangle_mesh and name = "''coordinates''"] c
    by simp
  have 2: "fst (getRealSection ''u'' unit_triangle_mesh) = 3
       \<and> realSections (snd (getRealSection ''u'' unit_triangle_mesh))
           = [''coordinates'' \<mapsto> 1, ''u'' \<mapsto> 3]
       \<and> heap_next (snd (getRealSection ''u'' unit_triangle_mesh)) = 4"
    using section_registries_get_or_create [where b = unit_triangle_mesh and name = "''u''"] n
    by (simp add: k r)
  have 3: "hasRealSection ''u'' (snd (getRealSection ''u'' unit_triangle_mesh))
       \<and> getRealSection ''u'' (snd (getRealSection ''u'' unit_triangle_mesh))
          = getRealSection ''u'' unit_triangle_mesh"
    using section_registries_get_or_create [where b = unit_triangle_mesh and name = "''u''"]
    by (simp add: case_prod_unfold prod_eq_iff)
  show ?thesis
    using 1 2 3 by simp
qed

subsection \<open>Tables\<close>

lemma map_of_table_set: "map_of (table_set k x t) = (map_of t)(k \<mapsto> x)"
  by (induction t) (auto simp: fun_eq_iff)

lemma keys_table_set: "fst ` set (table_set k x t) = insert k (fst ` set t)"
  by (induction t) auto

lemma wf_table_set: "wf_table t \<Longrightarrow> wf_table (table_set k x t)"
proof (induction t)
  case Nil
  then show ?case by (simp add: wf_table_def)
next
  case (Cons e t)
  then have tl: "wf_table t" and hd: "\<forall>y \<in> fst ` set t. fst e < y"
    by (auto simp: wf_table_def)
  have "\<forall>y \<in> fst ` set (table_set k x t). fst e < y" if "fst e < k"
    using that hd by (simp add: keys_table_set)
  then show ?case
    using Cons.IH [OF tl] Cons.prems
    by (auto simp: wf_table_def)
qed



lemma same_keys_unique:
  assumes "map fst xs = map fst ys" and "distinct (map fst xs)" and "map_of xs = map_of ys"
  shows "xs = ys"
  using assms
proof (induction xs arbitrary: ys)
  case Nil
  then show ?case by simp
next
  case (Cons e xs)
  then obtain e' ys' where b: "ys = e' # ys'" and k: "fst e' = fst e"
    and ks: "map fst xs = map fst ys'"
    by (cases ys) auto
  have at: "map_of (e # xs) z = map_of (e' # ys') z" for z
    using Cons.prems(3) b by (simp only:)
  have notin: "fst e \<notin> fst ` set xs" "fst e \<notin> fst ` set ys'"
    using Cons.prems(2) ks by (auto simp flip: set_map)
  have v: "snd e' = snd e"
    using at [of "fst e"] k by simp
  have "map_of xs z = map_of ys' z" for z
  proof (cases "z = fst e")
    case True
    have "map_of xs (fst e) = None" "map_of ys' (fst e) = None"
      using notin by (simp_all add: map_of_eq_None_iff)
    then show ?thesis
      using True by simp
  next
    case False
    then show ?thesis
      using at [of z] k by simp
  qed
  then have "map_of xs = map_of ys'"
    by (simp add: fun_eq_iff)
  then have "xs = ys'"
    using Cons.IH [OF ks] Cons.prems(2) by simp
  then show ?case
    using b k v by (simp add: prod_eq_iff)
qed

lemma wf_table_unique:
  assumes "wf_table a" and "wf_table b" and "map_of a = map_of b"
  shows "a = b"
proof -
  have sa: "sorted (map fst a)" "distinct (map fst a)"
    and sb: "sorted (map fst b)" "distinct (map fst b)"
    using assms(1,2) by (simp_all add: wf_table_def strict_sorted_iff)
  have "dom (map_of a) = dom (map_of b)"
    using assms(3) by simp
  then have "set (map fst a) = set (map fst b)"
    by (simp add: dom_map_of_conv_image_fst)
  then have "map fst a = map fst b"
    using sa sb by (rule_tac sorted_distinct_set_unique)
  then show ?thesis
    using sa(2) assms(3) by (rule same_keys_unique)
qed

lemma bc_value_eta [simp]:
  "\<lparr>rho = rho x, u = u x, v = v x, p = p x\<rparr> = (x::bc_value_type)"
  by simp

lemma recv_send:
  "distributeBCValues_recv (length t0) t1 (distributeBCValues_send t0 @ q)
     = Some (fold (\<lambda>(k, x). table_set k x) t0 t1, q)"
  by (induction t0 arbitrary: t1) (auto)

lemma wf_fold_table_set:
  "wf_table t1 \<Longrightarrow> wf_table (fold (\<lambda>(k, x). table_set k x) t0 t1)"
  by (induction t0 arbitrary: t1) (auto simp: wf_table_set)

lemma map_of_fold_table_set:
  "distinct (map fst t0) \<Longrightarrow>
   map_of (fold (\<lambda>(k, x). table_set k x) t0 t1) = map_of t1 ++ map_of t0"
proof (induction t0 arbitrary: t1)
  case Nil
  then show ?case by simp
next
  case (Cons e t0)
  obtain k x where e: "e = (k, x)" by (cases e)
  have notin: "k \<notin> dom (map_of t0)" and d: "distinct (map fst t0)"
    using Cons.prems e by (auto simp: dom_map_of_conv_image_fst)
  have "map_of (fold (\<lambda>(k, x). table_set k x) (e # t0) t1)
          = map_of (fold (\<lambda>(k, x). table_set k x) t0 (table_set k x t1))"
    by (simp add: e)
  also have "\<dots> = map_of (table_set k x t1) ++ map_of t0"
    by (rule Cons.IH [OF d])
  also have "\<dots> = (map_of t1)(k \<mapsto> x) ++ map_of t0"
    by (simp only: map_of_table_set)
  also have "\<dots> = (map_of t1 ++ map_of t0)(k \<mapsto> x)"
    using notin by (rule map_add_upd_left)
  also have "\<dots> = map_of t1 ++ map_of (e # t0)"
    by (simp add: e)
  finally show ?case .
qed

lemma int_of_size_small: "n < 2 ^ 31 \<Longrightarrow> int_of_size n = int n"
  by (simp add: int_of_size_def)


subsection \<open>Boundary values\<close>



text \<open>
  C3. On a run with two processes, \<open>distributeBCValues\<close> returns on both; the table of the root
  is unchanged, and the table of the other process is its prior table overwritten with the
  entries of the root. It equals the root's table when every id of the prior table is an id of
  the root's table (so when the prior table is empty), and the call changes nothing when the
  root's table is empty.
\<close>

theorem distributeBCValues_two_processes:
  assumes "commRank m0 = 0" and "commRank m1 \<noteq> 0"
    and "wf_table (bcValues m0)" and "wf_table (bcValues m1)"
    and "length (bcValues m0) < 2 ^ 31"
  shows "\<exists>m1'. distributeBCValues_run2 m0 m1 = Some (m0, m1')
           \<and> m1' = m1\<lparr>bcValues := bcValues m1'\<rparr>
           \<and> wf_table (bcValues m1')
           \<and> map_of (bcValues m1') = map_of (bcValues m1) ++ map_of (bcValues m0)
           \<and> (fst ` set (bcValues m1) \<subseteq> fst ` set (bcValues m0) \<longrightarrow> bcValues m1' = bcValues m0)
           \<and> (bcValues m0 = [] \<longrightarrow> m1' = m1)"
proof -
  let ?t = "fold (\<lambda>(k, x). table_set k x) (bcValues m0) (bcValues m1)"
  let ?m1' = "m1\<lparr>bcValues := ?t\<rparr>"
  have size: "nat (int_of_size (length (bcValues m0))) = length (bcValues m0)"
    using assms(5) by (simp add: int_of_size_small)
  have r: "distributeBCValues m0 []
             = Some (m0, Ints [int_of_size (length (bcValues m0))]
                      # distributeBCValues_send (bcValues m0))"
    using assms(1) by (simp add: distributeBCValues_def)
  have "distributeBCValues_recv (length (bcValues m0)) (bcValues m1)
          (distributeBCValues_send (bcValues m0) @ []) = Some (?t, [])"
    by (rule recv_send)
  then have o: "distributeBCValues m1
             (Ints [int_of_size (length (bcValues m0))] # distributeBCValues_send (bcValues m0))
          = Some (?m1', [])"
    using assms(2) by (simp add: distributeBCValues_def size)
  have run: "distributeBCValues_run2 m0 m1 = Some (m0, ?m1')"
    by (simp add: distributeBCValues_run2_def r o)
  have wf: "wf_table ?t"
    using assms(4) by (rule wf_fold_table_set)
  have d: "distinct (map fst (bcValues m0))"
    using assms(3) by (simp add: wf_table_def strict_sorted_iff)
  have mo: "map_of ?t = map_of (bcValues m1) ++ map_of (bcValues m0)"
    using d by (rule map_of_fold_table_set)
  have sub: "?t = bcValues m0" if "fst ` set (bcValues m1) \<subseteq> fst ` set (bcValues m0)"
  proof -
    have "dom (map_of (bcValues m1)) \<subseteq> dom (map_of (bcValues m0))"
      using that by (simp add: dom_map_of_conv_image_fst)
    then have "map_of (bcValues m1) ++ map_of (bcValues m0) = map_of (bcValues m0)"
      by (auto simp: fun_eq_iff map_add_def split: option.splits)
    then show ?thesis
      using wf assms(3) mo by (intro wf_table_unique) simp_all
  qed
  have emp: "?m1' = m1" if "bcValues m0 = []"
    using that by simp
  show ?thesis
    using run wf mo sub emp by (intro exI [of _ ?m1']) simp
qed

theorem distributeBCValues_two_processes_witness:
  "distributeBCValues_run2 root_mesh other_mesh
     = Some (root_mesh, other_mesh\<lparr>bcValues := bcValues root_mesh\<rparr>)"
proof -
  have h: "commRank root_mesh = 0" "commRank other_mesh \<noteq> 0"
    "wf_table (bcValues root_mesh)" "wf_table (bcValues other_mesh)"
    "length (bcValues root_mesh) < 2 ^ 31"
    by (simp_all add: unit_triangle_mesh_def root_mesh_def other_mesh_def wf_table_def)
  have k: "fst ` set (bcValues other_mesh) \<subseteq> fst ` set (bcValues root_mesh)"
    by (simp add: root_mesh_def other_mesh_def)
  obtain m1' where "distributeBCValues_run2 root_mesh other_mesh = Some (root_mesh, m1')"
    and "m1' = other_mesh\<lparr>bcValues := bcValues m1'\<rparr>" and "bcValues m1' = bcValues root_mesh"
    using distributeBCValues_two_processes [OF h] k by blast
  then show ?thesis by simp
qed

text \<open>
  An id that only the other process has stays in its table, which then differs from the
  root's.
\<close>

theorem distributeBCValues_keeps_other_entries:
  "distributeBCValues_run2 root_mesh other_mesh_extra
     = Some (root_mesh,
             other_mesh_extra\<lparr>bcValues := [(3, \<lparr>rho = 1, u = 0, v = 0, p = 1\<rparr>),
                                            (7, \<lparr>rho = 5, u = 6, v = 7, p = 8\<rparr>),
                                            (9, \<lparr>rho = 9, u = 9, v = 9, p = 9\<rparr>)]\<rparr>)
   \<and> [(3, \<lparr>rho = 1, u = 0, v = 0, p = 1\<rparr>), (7, \<lparr>rho = 5, u = 6, v = 7, p = 8\<rparr>),
       (9, \<lparr>rho = 9, u = 9, v = 9, p = 9\<rparr>)] \<noteq> bcValues root_mesh"
  by (simp add: distributeBCValues_run2_def distributeBCValues_def unit_triangle_mesh_def
      root_mesh_def other_mesh_extra_def int_of_size_def numeral_2_eq_2)

subsection \<open>Field setup\<close>

lemma getNumDof_eq:
  "\<exists>t. getNumDof d m = (numDof (dim2dof m) d, m\<lparr>dim2dof := t\<rparr>) \<and> numDof t = numDof (dim2dof m)"
proof (cases "map_of (dim2dof m) d")
  case None
  then have "getNumDof d m = (numDof (dim2dof m) d, m\<lparr>dim2dof := table_set d 0 (dim2dof m)\<rparr>)"
    by (simp add: getNumDof_def table_index_def numDof_def)
  moreover have "numDof (table_set d 0 (dim2dof m)) = numDof (dim2dof m)"
    using None by (auto simp: numDof_def map_of_table_set fun_eq_iff)
  ultimately show ?thesis by blast
next
  case (Some n)
  then have "getNumDof d m = (numDof (dim2dof m) d, m\<lparr>dim2dof := dim2dof m\<rparr>)"
    by (simp add: getNumDof_def table_index_def numDof_def)
  then show ?thesis by blast
qed

lemma fst_getNumDof: "fst (getNumDof d m) = numDof (dim2dof m) d"
  using getNumDof_eq [of d m] by auto

lemma appended_trans:
  assumes "appended s cs m m'" and "appended s cs' m' m''"
  shows "appended s (cs @ cs') m m''"
proof -
  obtain t where 1: "m' = m\<lparr>real_heap := (real_heap m)(s := real_heap m s @ cs), dim2dof := t\<rparr>"
    and 2: "numDof t = numDof (dim2dof m)"
    using assms(1) by (auto simp: appended_def)
  obtain t' where 3: "m'' = m'\<lparr>real_heap := (real_heap m')(s := real_heap m' s @ cs'), dim2dof := t'\<rparr>"
    and 4: "numDof t' = numDof (dim2dof m')"
    using assms(2) by (auto simp: appended_def)
  have "m'' = m\<lparr>real_heap := (real_heap m)(s := real_heap m s @ cs @ cs'), dim2dof := t'\<rparr>"
    by (simp add: 3 1)
  moreover have "numDof t' = numDof (dim2dof m)"
    using 4 2 by (simp add: 1)
  ultimately show ?thesis
    by (auto simp: appended_def)
qed

lemma appended_fields:
  assumes "appended s cs m m'"
  shows "dim m' = dim m" "topology m' = topology m" "labelName m' = labelName m"
    "func m' = func m" "realSections m' = realSections m" "heap_next m' = heap_next m"
    "debug m' = debug m" "numDof (dim2dof m') = numDof (dim2dof m)"
    "real_heap m' s = real_heap m s @ cs" "a \<noteq> s \<Longrightarrow> real_heap m' a = real_heap m a"
  using assms by (auto simp: appended_def)

lemma setupField_depth_appended:
  "appended s [SetFiberDimensionByDepth patch d (numDof (dim2dof m) d)] m (setupField_depth s patch d m)"
proof -
  obtain t where "getNumDof d m = (numDof (dim2dof m) d, m\<lparr>dim2dof := t\<rparr>)"
    and "numDof t = numDof (dim2dof m)"
    using getNumDof_eq by blast
  then show ?thesis
    by (auto simp: appended_def setupField_depth_def section_do_def intro!: exI [of _ t])
qed

lemma setupField_constrain_appended:
  "appended s [SetFiberDimension patch e (negate_int (numDof (dim2dof m) (depth (topology m) patch e)))] m
     (setupField_constrain s patch e m)"
proof -
  obtain t where "getNumDof (depth (topology m) patch e) m
      = (numDof (dim2dof m) (depth (topology m) patch e), m\<lparr>dim2dof := t\<rparr>)"
    and "numDof t = numDof (dim2dof m)"
    using getNumDof_eq by blast
  then show ?thesis
    by (auto simp: appended_def setupField_constrain_def section_do_def intro!: exI [of _ t])
qed

lemma appended_refl: "appended s [] m m"
  by (auto simp: appended_def intro!: exI [of _ "dim2dof m"])

lemma fold_depth_appended:
  "appended s (map (\<lambda>d. SetFiberDimensionByDepth patch d (numDof (dim2dof m) d)) ds) m
     (fold (setupField_depth s patch) ds m)"
proof (induction ds arbitrary: m)
  case Nil
  show ?case by (simp add: appended_refl)
next
  case (Cons d ds)
  let ?m1 = "setupField_depth s patch d m"
  have 1: "appended s [SetFiberDimensionByDepth patch d (numDof (dim2dof m) d)] m ?m1"
    by (rule setupField_depth_appended)
  have 2: "appended s (map (\<lambda>d. SetFiberDimensionByDepth patch d (numDof (dim2dof m) d)) ds) ?m1
     (fold (setupField_depth s patch) ds ?m1)"
    using Cons.IH [of ?m1] by (simp add: appended_fields(8) [OF 1])
  show ?case
    using appended_trans [OF 1 2] by simp
qed

lemma fold_constrain_appended:
  "appended s (map (\<lambda>e. SetFiberDimension patch e
                           (negate_int (numDof (dim2dof m) (depth (topology m) patch e)))) es) m
     (fold (setupField_constrain s patch) es m)"
proof (induction es arbitrary: m)
  case Nil
  show ?case by (simp add: appended_refl)
next
  case (Cons e es)
  let ?m1 = "setupField_constrain s patch e m"
  have 1: "appended s [SetFiberDimension patch e
              (negate_int (numDof (dim2dof m) (depth (topology m) patch e)))] m ?m1"
    by (rule setupField_constrain_appended)
  have 2: "appended s (map (\<lambda>e. SetFiberDimension patch e
                           (negate_int (numDof (dim2dof m) (depth (topology m) patch e)))) es) ?m1
     (fold (setupField_constrain s patch) es ?m1)"
    using Cons.IH [of ?m1] by (simp add: appended_fields(8) [OF 1] appended_fields(2) [OF 1])
  show ?case
    using appended_trans [OF 1 2] by simp
qed

lemma section_do_appended: "appended s [c] m (section_do s c m)"
  by (auto simp: appended_def section_do_def intro!: exI [of _ "dim2dof m"])

lemma fold_value_appended:
  "appended s (setupField_updates S (func m) (c = s) patch (real_heap m c) es) m
     (fold (setupField_value S c s patch) es m)"
proof (induction es arbitrary: m)
  case Nil
  show ?case by (simp add: appended_refl)
next
  case (Cons e es)
  let ?call = "UpdateBC patch e (func m (restrictPoint S (real_heap m c) patch e))"
  let ?m1 = "setupField_value S c s patch e m"
  have 1: "appended s [?call] m ?m1"
    unfolding setupField_value_def Let_def evaluate_def by (rule section_do_appended)
  have h: "real_heap ?m1 c = (if c = s then real_heap m c @ [?call] else real_heap m c)"
    using appended_fields(9,10) [OF 1] by (cases "c = s") simp_all
  have 2: "appended s (setupField_updates S (func m) (c = s) patch
                         (if c = s then real_heap m c @ [?call] else real_heap m c) es) ?m1
             (fold (setupField_value S c s patch) es ?m1)"
    using Cons.IH [of ?m1] by (simp only: h appended_fields(4) [OF 1])
  show ?case
    using appended_trans [OF 1 2] by (simp add: Let_def)
qed

lemma updates_not_byDepth:
  "filter byDepth (setupField_updates S f alias patch coordinates es) = []"
  by (induction es arbitrary: coordinates) (simp_all add: byDepth_def Let_def)

lemma updates_unaliased:
  "setupField_updates S f False patch coordinates es
     = map (\<lambda>e. UpdateBC patch e (f (restrictPoint S coordinates patch e))) es"
  by (induction es) (simp_all add: Let_def)

lemma getRealSection_absent_fields:
  fixes m :: Mesh
  assumes "realSections m name = None"
  shows "fst (getRealSection name m) = heap_next m"
    "real_heap (snd (getRealSection name m)) = (real_heap m)(heap_next m := [])"
    "topology (snd (getRealSection name m)) = topology m"
    "func (snd (getRealSection name m)) = func m"
  using assms
  by (simp_all add: getRealSection_def map_index_def new_section_def print_line_def Let_def)

lemma setupField_history:
  assumes "s < heap_next m"
  shows "real_heap (setupField S s m) s =
           real_heap m s @ setupField_bulk m @
             (if labelName m = [] then [Allocate]
              else setupField_constraints m @ [Allocate] @ setupField_values S s m)"
proof -
  let ?bulk = "setupField_bulk m"
  let ?m1 = "fold (setupField_depth s 0) [0..dim m - 1] m"
  have A1: "appended s ?bulk m ?m1"
    unfolding setupField_bulk_def fst_getNumDof by (rule fold_depth_appended)
  show ?thesis
  proof (cases "labelName m = []")
    case True
    have "appended s (?bulk @ [Allocate]) m (section_do s Allocate ?m1)"
      using A1 section_do_appended by (rule appended_trans)
    then have "real_heap (section_do s Allocate ?m1) s = real_heap m s @ ?bulk @ [Allocate]"
      by (rule appended_fields(9))
    then show ?thesis
      using True by (simp add: setupField_def Let_def)
  next
    case False
    let ?boundary = "getLabelStratum (topology m) 0 (labelName m) 1"
    let ?constrain = "setupField_constraints m"
    let ?m2 = "fold (setupField_constrain s 0) ?boundary ?m1"
    let ?m3 = "section_do s Allocate ?m2"
    have "appended s (map (\<lambda>e. SetFiberDimension 0 e
                          (negate_int (numDof (dim2dof ?m1) (depth (topology ?m1) 0 e))))
                        ?boundary) ?m1 ?m2"
      by (rule fold_constrain_appended)
    then have A2: "appended s ?constrain ?m1 ?m2"
      by (simp add: appended_fields(2,8) [OF A1] setupField_constraints_def fst_getNumDof)
    have A3: "appended s (?bulk @ ?constrain @ [Allocate]) m ?m3"
      using appended_trans [OF A1 appended_trans [OF A2 section_do_appended]] by simp
    obtain c m4 where g: "getRealSection ''coordinates'' ?m3 = (c, m4)"
      by (cases "getRealSection ''coordinates'' ?m3")
    let ?coordinates = "case realSections m ''coordinates'' of
                          None \<Rightarrow> []
                        | Some c \<Rightarrow>
                            if c = s then real_heap m s @ ?bulk @ ?constrain @ [Allocate]
                            else real_heap m c"
    have m4: "(c = s) = (realSections m ''coordinates'' = Some s)
              \<and> real_heap m4 c = ?coordinates \<and> real_heap m4 s = real_heap ?m3 s
              \<and> topology m4 = topology m \<and> func m4 = func m"
    proof (cases "realSections m ''coordinates''")
      case None
      then have n: "realSections ?m3 ''coordinates'' = None"
        by (simp add: appended_fields(5) [OF A3])
      have "c = heap_next m"
        using getRealSection_absent_fields(1) [OF n] g by (simp add: appended_fields(6) [OF A3])
      then show ?thesis
        using getRealSection_absent_fields(2,3,4) [OF n] g assms(1) None
        by (simp add: appended_fields(2,4,6) [OF A3])
    next
      case (Some c')
      then have "realSections ?m3 ''coordinates'' = Some c'"
        by (simp add: appended_fields(5) [OF A3])
      then have "c = c'" "m4 = ?m3"
        using getRealSection_present [of ?m3 "''coordinates''" c'] g by simp_all
      then show ?thesis
        using Some
        by (simp add: appended_fields(2,4,9) [OF A3] appended_fields(10) [OF A3])
    qed
    have "appended s (setupField_updates S (func m4) (c = s) 0 (real_heap m4 c) ?boundary) m4
            (fold (setupField_value S c s 0) ?boundary m4)"
      by (rule fold_value_appended)
    then have "appended s (setupField_values S s m) m4
            (fold (setupField_value S c s 0) ?boundary m4)"
      using m4 by (simp add: setupField_values_def)
    then have "real_heap (fold (setupField_value S c s 0) ?boundary m4) s
                 = real_heap m4 s @ setupField_values S s m"
      by (rule appended_fields(9))
    then have "real_heap (fold (setupField_value S c s 0) ?boundary m4) s
                 = real_heap m s @ ?bulk @ ?constrain @ [Allocate] @ setupField_values S s m"
      using m4 by (simp add: appended_fields(9) [OF A3])
    moreover have "setupField S s m = fold (setupField_value S c s 0) ?boundary m4"
      using False g m4 by (simp add: setupField_def Let_def appended_fields(2) [OF A1])
    ultimately show ?thesis
      using False by simp
  qed
qed

lemma upto_0_1: "[0..1] = [0, 1::int]"
  by (simp add: upto.simps)

lemma unit_triangle_bulk:
  "setupField_bulk unit_triangle_mesh
     = [SetFiberDimensionByDepth 0 0 1, SetFiberDimensionByDepth 0 1 0]"
  "setupField_bulk marked_triangle_mesh
     = [SetFiberDimensionByDepth 0 0 1, SetFiberDimensionByDepth 0 1 0]"
  by (simp_all add: setupField_bulk_def fst_getNumDof numDof_def unit_triangle_mesh_def
      marked_triangle_mesh_def upto_0_1)

text \<open>
  C1. For a section \<open>s\<close> that is an allocated object, \<open>setupField\<close> first calls
  \<open>setFiberDimensionByDepth\<close> once for each \<open>d\<close> from 0 to \<open>dim - 1\<close>, in this order, with the dof
  count \<open>getNumDof d\<close> of the discretization, and makes no other call of
  \<open>setFiberDimensionByDepth\<close>: the depth \<open>dim\<close> itself is not assigned.
\<close>

theorem setupField_depth_dimensions:
  assumes "s < heap_next m"
  shows "take (length (real_heap m s) + length (setupField_bulk m)) (real_heap (setupField S s m) s)
           = real_heap m s @ setupField_bulk m
         \<and> filter byDepth (drop (length (real_heap m s)) (real_heap (setupField S s m) s))
           = setupField_bulk m"
proof -
  have b: "filter byDepth (setupField_bulk m) = setupField_bulk m"
    by (simp add: setupField_bulk_def byDepth_def filter_map comp_def)
  have c: "filter byDepth (setupField_constraints m) = []"
    by (simp add: setupField_constraints_def byDepth_def filter_map comp_def)
  have v: "filter byDepth (setupField_values S s m) = []"
    by (simp add: setupField_values_def updates_not_byDepth)
  show ?thesis
    by (simp add: setupField_history [OF assms] b c v byDepth_def)
qed

theorem setupField_depth_dimensions_witness:
  "filter byDepth (real_heap (setupField unit_triangle_section 2 marked_triangle_mesh) 2)
     = [SetFiberDimensionByDepth 0 0 1, SetFiberDimensionByDepth 0 1 0]"
proof -
  have "(2::nat) < heap_next marked_triangle_mesh"
    and "real_heap marked_triangle_mesh 2 = []"
    by (simp_all add: marked_triangle_mesh_def unit_triangle_mesh_def)
  then show ?thesis
    using setupField_depth_dimensions [of 2 marked_triangle_mesh unit_triangle_section]
    by (simp add: unit_triangle_bulk)
qed

text \<open>
  On the triangle mesh (dimension 2, one dof per cell, the cell at depth 2) the calls are those
  for the depths 0 and 1 and \<open>Allocate\<close>; there is none for depth 2.
\<close>

theorem setupField_skips_top_depth:
  "real_heap (setupField unit_triangle_section 2 unit_triangle_mesh) 2
     = [SetFiberDimensionByDepth 0 0 1, SetFiberDimensionByDepth 0 1 0, Allocate]
   \<and> dim unit_triangle_mesh = 2
   \<and> depth (topology unit_triangle_mesh) 0 0 = 2
   \<and> fst (getNumDof 2 unit_triangle_mesh) = 1
   \<and> SetFiberDimensionByDepth 0 2 1
       \<notin> set (real_heap (setupField unit_triangle_section 2 unit_triangle_mesh) 2)"
  by (simp add: setupField_def setupField_depth_def getNumDof_def table_index_def section_do_def
      unit_triangle_mesh_def unit_triangle_topology_def upto_0_1 Let_def)

lemma negate_int_eq: "- (2 ^ 31) < n \<Longrightarrow> n < 2 ^ 31 \<Longrightarrow> negate_int n = - n"
  by (simp add: negate_int_def)

lemma negate_int_min: "negate_int (- (2 ^ 31)) = - (2 ^ 31)"
  by (simp add: negate_int_def)

text \<open>
  C4. After the assignments by depth, \<open>setupField\<close> on a mesh whose boundary condition has a
  non-empty label name calls \<open>setFiberDimension\<close> for every point of the label's stratum of
  value 1 with the negation of the dof count at the point's depth, then \<open>allocate\<close>, then
  \<open>updateBC\<close> for every such point with the value of the functional on the point's restriction
  of the coordinates section. The negation is the negative of the dof count for every dof
  count but \<open>- 2 ^ 31\<close>, where the machine's negation overflows. With an empty label name
  \<open>setupField\<close> only calls \<open>allocate\<close>: there is no override and no \<open>updateBC\<close>.
\<close>

theorem setupField_boundary_points:
  assumes "s < heap_next m"
  shows "drop (length (real_heap m s) + length (setupField_bulk m))
             (real_heap (setupField S s m) s)
           = (if labelName m = [] then [Allocate]
              else setupField_constraints m @ [Allocate] @ setupField_values S s m)
         \<and> ((\<forall>e \<in> set (getLabelStratum (topology m) 0 (labelName m) 1).
                - (2 ^ 31) < fst (getNumDof (depth (topology m) 0 e) m)
                \<and> fst (getNumDof (depth (topology m) 0 e) m) < 2 ^ 31) \<longrightarrow>
              setupField_constraints m = setupField_negated m)
         \<and> (realSections m ''coordinates'' \<noteq> Some s \<longrightarrow>
              setupField_values S s m =
                map (\<lambda>e. UpdateBC 0 e
                       (evaluate m (restrictPoint S
                          (case realSections m ''coordinates'' of
                             None \<Rightarrow> [] | Some c \<Rightarrow> real_heap m c) 0 e)))
                  (getLabelStratum (topology m) 0 (labelName m) 1))"
proof -
  have "setupField_values S s m =
          map (\<lambda>e. UpdateBC 0 e
                 (evaluate m (restrictPoint S
                    (case realSections m ''coordinates'' of
                       None \<Rightarrow> [] | Some c \<Rightarrow> real_heap m c) 0 e)))
            (getLabelStratum (topology m) 0 (labelName m) 1)"
    if "realSections m ''coordinates'' \<noteq> Some s"
    using that
    by (cases "realSections m ''coordinates''")
      (simp_all add: setupField_values_def updates_unaliased evaluate_def)
  moreover have "setupField_constraints m = setupField_negated m"
    if "\<forall>e \<in> set (getLabelStratum (topology m) 0 (labelName m) 1).
                - (2 ^ 31) < fst (getNumDof (depth (topology m) 0 e) m)
                \<and> fst (getNumDof (depth (topology m) 0 e) m) < 2 ^ 31"
    using that by (simp add: setupField_constraints_def setupField_negated_def negate_int_eq)
  ultimately show ?thesis
    by (simp add: setupField_history [OF assms])
qed

theorem setupField_boundary_points_witness:
  "drop 2 (real_heap (setupField unit_triangle_section 2 marked_triangle_mesh) 2)
     = [SetFiberDimension 0 1 (- 1), SetFiberDimension 0 2 (- 1), SetFiberDimension 0 3 (- 1),
        SetFiberDimension 0 4 0, SetFiberDimension 0 5 0, SetFiberDimension 0 6 0,
        Allocate,
        UpdateBC 0 1 0, UpdateBC 0 2 1, UpdateBC 0 3 1,
        UpdateBC 0 4 0, UpdateBC 0 5 0, UpdateBC 0 6 0]
   \<and> drop 2 (real_heap (setupField unit_triangle_section 2 unit_triangle_mesh) 2) = [Allocate]"
proof -
  have h: "(2::nat) < heap_next marked_triangle_mesh" "(2::nat) < heap_next unit_triangle_mesh"
    and e: "real_heap marked_triangle_mesh 2 = []" "real_heap unit_triangle_mesh 2 = []"
    and n: "realSections marked_triangle_mesh ''coordinates'' \<noteq> Some 2"
    by (simp_all add: marked_triangle_mesh_def unit_triangle_mesh_def)
  have r: "\<forall>e \<in> set (getLabelStratum (topology marked_triangle_mesh) 0
                        (labelName marked_triangle_mesh) 1).
             - (2 ^ 31) < fst (getNumDof (depth (topology marked_triangle_mesh) 0 e)
                                 marked_triangle_mesh)
             \<and> fst (getNumDof (depth (topology marked_triangle_mesh) 0 e) marked_triangle_mesh)
                 < 2 ^ 31"
    by (simp add: fst_getNumDof numDof_def marked_triangle_mesh_def unit_triangle_mesh_def
        unit_triangle_topology_def)
  have c: "setupField_negated marked_triangle_mesh
     = [SetFiberDimension 0 1 (- 1), SetFiberDimension 0 2 (- 1), SetFiberDimension 0 3 (- 1),
        SetFiberDimension 0 4 0, SetFiberDimension 0 5 0, SetFiberDimension 0 6 0]"
    by (simp add: setupField_negated_def fst_getNumDof numDof_def marked_triangle_mesh_def
        unit_triangle_mesh_def unit_triangle_topology_def)
  have v: "map (\<lambda>e. UpdateBC 0 e
                       (evaluate marked_triangle_mesh (restrictPoint unit_triangle_section
                          (case realSections marked_triangle_mesh ''coordinates'' of
                             None \<Rightarrow> [] | Some c \<Rightarrow> real_heap marked_triangle_mesh c) 0 e)))
                  (getLabelStratum (topology marked_triangle_mesh) 0
                     (labelName marked_triangle_mesh) 1)
     = [UpdateBC 0 1 0, UpdateBC 0 2 1, UpdateBC 0 3 1,
        UpdateBC 0 4 0, UpdateBC 0 5 0, UpdateBC 0 6 0]"
    by (simp add: evaluate_def marked_triangle_mesh_def unit_triangle_mesh_def
        unit_triangle_topology_def unit_triangle_section_def coords_of_def)
  have l: "labelName marked_triangle_mesh \<noteq> []" "labelName unit_triangle_mesh = []"
    by (simp_all add: marked_triangle_mesh_def unit_triangle_mesh_def)
  have k: "length (real_heap marked_triangle_mesh 2)
             + length (setupField_bulk marked_triangle_mesh) = 2"
    "length (real_heap unit_triangle_mesh 2) + length (setupField_bulk unit_triangle_mesh) = 2"
    by (simp_all add: e unit_triangle_bulk)
  have A: "drop 2 (real_heap (setupField unit_triangle_section 2 marked_triangle_mesh) 2)
             = setupField_constraints marked_triangle_mesh @ [Allocate] @
               setupField_values unit_triangle_section 2 marked_triangle_mesh"
    and B: "setupField_constraints marked_triangle_mesh = setupField_negated marked_triangle_mesh"
    and C: "setupField_values unit_triangle_section 2 marked_triangle_mesh
             = [UpdateBC 0 1 0, UpdateBC 0 2 1, UpdateBC 0 3 1,
                UpdateBC 0 4 0, UpdateBC 0 5 0, UpdateBC 0 6 0]"
    using setupField_boundary_points [OF h(1), of unit_triangle_section] n r
    unfolding k v by (simp_all add: l)
  have D: "drop 2 (real_heap (setupField unit_triangle_section 2 unit_triangle_mesh) 2)
             = [Allocate]"
    using setupField_boundary_points [OF h(2), of unit_triangle_section]
    unfolding k by (simp add: l)
  show ?thesis
    by (simp add: A B C D c)
qed

end
